theory Spec2Isabelle
  imports
    Complex_Main
    "HOL-Library.Log_Nat"
    "HOL-Library.Char_ord"
    "HOL-Library.List_Lexorder"
begin

section \<open>Python values used by analyzer.py\<close>

subsection \<open>Strings\<close>

text \<open>
  A Python \<open>str\<close> is modelled as the list of its code points, one \<open>char\<close> each, for
  code points below 256. The character classes are those of CPython on that range.
\<close>

definition isspace :: "char \<Rightarrow> bool" where
  \<comment> \<open>\<open>str.isspace\<close>, also the class \<open>\s\<close> of \<open>re\<close> on \<open>str\<close> patterns\<close>
  "isspace c =
     (let n = (of_char c :: nat)
      in (9 \<le> n \<and> n \<le> 13) \<or> (28 \<le> n \<and> n \<le> 32) \<or> n = 133 \<or> n = 160)"

definition isdigit :: "char \<Rightarrow> bool" where
  \<comment> \<open>\<open>str.isdigit\<close>: the decimal digits and the superscripts two, three and one\<close>
  "isdigit c =
     (let n = (of_char c :: nat)
      in (48 \<le> n \<and> n \<le> 57) \<or> n = 178 \<or> n = 179 \<or> n = 185)"

definition is_decimal :: "char \<Rightarrow> bool" where
  \<comment> \<open>the class \<open>\d\<close> of \<open>re\<close>\<close>
  "is_decimal c = (let n = (of_char c :: nat) in 48 \<le> n \<and> n \<le> 57)"

definition is_word_char :: "char \<Rightarrow> bool" where
  \<comment> \<open>the class \<open>\w\<close> of \<open>re\<close>: alphanumeric characters and the underscore\<close>
  "is_word_char c =
     (let n = (of_char c :: nat)
      in (48 \<le> n \<and> n \<le> 57) \<or> (65 \<le> n \<and> n \<le> 90) \<or> n = 95 \<or> (97 \<le> n \<and> n \<le> 122)
         \<or> n = 170 \<or> n = 178 \<or> n = 179 \<or> n = 181 \<or> n = 185 \<or> n = 186
         \<or> (188 \<le> n \<and> n \<le> 190) \<or> (192 \<le> n \<and> n \<le> 214)
         \<or> (216 \<le> n \<and> n \<le> 246) \<or> (248 \<le> n \<and> n \<le> 255))"

definition lower_char :: "char \<Rightarrow> char" where
  "lower_char c =
     (let n = (of_char c :: nat)
      in if (65 \<le> n \<and> n \<le> 90) \<or> (192 \<le> n \<and> n \<le> 222 \<and> n \<noteq> 215)
         then char_of (n + 32) else c)"

definition lower :: "string \<Rightarrow> string" where
  \<comment> \<open>\<open>str.lower\<close>\<close>
  "lower s = map lower_char s"

definition strip :: "string \<Rightarrow> string" where
  \<comment> \<open>\<open>str.strip()\<close>\<close>
  "strip s = rev (dropWhile isspace (rev (dropWhile isspace s)))"

fun fields_from :: "char \<Rightarrow> string \<Rightarrow> string \<Rightarrow> string list" where
  \<comment> \<open>the second argument is the field being read, reversed\<close>
  "fields_from sep w [] = [rev w]"
| "fields_from sep w (c # cs) =
     (if c = sep then rev w # fields_from sep [] cs else fields_from sep (c # w) cs)"

definition split_on :: "char \<Rightarrow> string \<Rightarrow> string list" where
  \<comment> \<open>\<open>str.split(sep)\<close> for a separator of one character\<close>
  "split_on sep s = fields_from sep [] s"

fun words_from :: "string \<Rightarrow> string \<Rightarrow> string list" where
  \<comment> \<open>the first argument is the word being read, reversed\<close>
  "words_from w [] = (if w = [] then [] else [rev w])"
| "words_from w (c # cs) =
     (if isspace c then (if w = [] then words_from [] cs else rev w # words_from [] cs)
      else words_from (c # w) cs)"

definition split_ws :: "string \<Rightarrow> string list" where
  \<comment> \<open>\<open>str.split()\<close>: the maximal runs of characters that are not whitespace\<close>
  "split_ws s = words_from [] s"

fun contains :: "string \<Rightarrow> string \<Rightarrow> bool" where
  \<comment> \<open>\<open>contains p s\<close> is Python's \<open>p in s\<close>\<close>
  "contains p [] = (p = [])"
| "contains p (c # cs) = (take (length p) (c # cs) = p \<or> contains p cs)"

definition remove_char :: "char \<Rightarrow> string \<Rightarrow> string" where
  \<comment> \<open>\<open>s.replace(c, '')\<close>\<close>
  "remove_char c s = filter (\<lambda>d. d \<noteq> c) s"

fun join :: "string \<Rightarrow> string list \<Rightarrow> string" where
  \<comment> \<open>\<open>sep.join(xs)\<close>\<close>
  "join sep [] = []"
| "join sep [x] = x"
| "join sep (x # y # ys) = x @ sep @ join sep (y # ys)"

definition newline :: char where
  "newline = CHR 0x0A"

fun collapse_blanks :: "bool \<Rightarrow> string \<Rightarrow> string" where
  \<comment> \<open>\<open>re.sub(r'[ \t]+', ' ', s)\<close>; the flag says that the run being read has been replaced\<close>
  "collapse_blanks inrun [] = []"
| "collapse_blanks inrun (c # cs) =
     (if c = CHR '' '' \<or> c = CHR 0x09
      then (if inrun then collapse_blanks True cs else CHR '' '' # collapse_blanks True cs)
      else c # collapse_blanks False cs)"

function sub_newline_runs :: "string \<Rightarrow> string \<Rightarrow> string" where
  \<comment> \<open>\<open>re.sub(r'\s*\n\s*', rep, s)\<close>: a maximal run of whitespace is matched, whole, exactly
      when it holds a newline\<close>
  "sub_newline_runs rep [] = []"
| "sub_newline_runs rep (c # cs) =
     (if isspace c
      then (if newline \<in> set (takeWhile isspace (c # cs)) then rep else takeWhile isspace (c # cs))
           @ sub_newline_runs rep (dropWhile isspace cs)
      else c # sub_newline_runs rep cs)"
  by pat_completeness auto
termination
  by (relation "measure (\<lambda>(rep, s). length s)")
     (auto simp: length_dropWhile_le le_imp_less_Suc)

subsection \<open>Floating point\<close>

text \<open>
  A Python \<open>float\<close> is an IEEE 754 binary64 number; it is modelled by its exact value, a
  rational. Every operation returns the exact result rounded to the nearest number with a
  significand of 53 bits, ties to the even significand. The values of this program lie
  between \<open>2\<^sup>-\<^sup>6\<^sup>4\<close> and \<open>2\<^sup>7\<close>, or are zero, so the limits of the exponent play no part.
\<close>

definition round_half_even :: "rat \<Rightarrow> int" where
  "round_half_even x =
     (let f = \<lfloor>x\<rfloor>; r = x - of_int f
      in if r < 1 / 2 then f
         else if 1 / 2 < r then f + 1
         else if even f then f else f + 1)"

definition float_exponent :: "rat \<Rightarrow> int" where
  \<comment> \<open>for positive \<open>x\<close>, the \<open>e\<close> with \<open>2\<^sup>e \<le> x < 2\<^sup>e\<^sup>+\<^sup>1\<close>\<close>
  "float_exponent x =
     (let p = fst (quotient_of x); q = snd (quotient_of x); d = bitlen p - bitlen q
      in if 2 powi d \<le> x then d else d - 1)"

definition fl :: "rat \<Rightarrow> rat" where
  \<comment> \<open>rounding to binary64\<close>
  "fl x =
     (if x = 0 then 0
      else let a = \<bar>x\<bar>; u = 2 powi (float_exponent a - 52)
           in sgn x * of_int (round_half_even (a / u)) * u)"

definition int_true_div :: "int \<Rightarrow> int \<Rightarrow> rat" where
  \<comment> \<open>\<open>a / b\<close> on two \<open>int\<close>s, for \<open>b \<noteq> 0\<close>: the quotient, correctly rounded\<close>
  "int_true_div a b = fl (of_int a / of_int b)"

definition float_of_int :: "int \<Rightarrow> rat" where
  "float_of_int n = fl (of_int n)"

definition float_mul :: "rat \<Rightarrow> rat \<Rightarrow> rat" where
  "float_mul x y = fl (x * y)"

definition float_add :: "rat \<Rightarrow> rat \<Rightarrow> rat" where
  "float_add x y = fl (x + y)"

definition py_int :: "rat \<Rightarrow> int" where
  \<comment> \<open>\<open>int(x)\<close> on a float: truncation towards zero\<close>
  "py_int x = (if 0 \<le> x then \<lfloor>x\<rfloor> else \<lceil>x\<rceil>)"

definition py_round :: "rat \<Rightarrow> int" where
  \<comment> \<open>\<open>round(x)\<close> on a float: to the nearest integer, ties to even\<close>
  "py_round x = round_half_even x"

section \<open>The analyzer\<close>

subsection \<open>Configuration tables\<close>

definition OUTDATED_TECH :: "string list" where
  "OUTDATED_TECH = [''flash'', ''jquery'', ''svn'', ''subversion'', ''visual basic'', ''vb.net'',
     ''webforms'', ''soap'', ''angularjs'']"

definition BUZZWORDS :: "string list" where
  "BUZZWORDS = [''synergy'', ''go-getter'', ''team player'', ''results-oriented'', ''dynamic'',
     ''proactive'', ''thought leader'', ''self-starter'']"

definition ACTION_VERBS :: "string list" where
  "ACTION_VERBS = [''achieved'', ''accelerated'', ''improved'', ''drove'', ''managed'', ''created'',
     ''launched'', ''led'', ''increased'', ''decreased'', ''optimized'']"

definition EDUCATION_TERMS :: "string list" where
  "EDUCATION_TERMS = [''b.s'', ''b.a'', ''m.s'', ''m.a'', ''ph.d'', ''bachelor'', ''master'',
     ''doctorate'', ''university'', ''college'', ''institute'']"

definition DOMAIN_KEYWORDS :: "(string \<times> string list) list" where
  "DOMAIN_KEYWORDS =
     [(''software'', [''engineer'', ''developer'', ''python'', ''java'', ''aws'', ''software'',
         ''api'', ''database'', ''git'', ''cloud'']),
      (''marketing'', [''marketing'', ''campaign'', ''brand'', ''seo'', ''ppc'', ''content'',
         ''digital'', ''analytic'', ''social media'']),
      (''graphic_designer'', [''graphic'', ''photoshop'', ''illustrator'', ''figma'', ''design'',
         ''visual'', ''assets'', ''branding'']),
      (''scm'', [''supply chain'', ''scm'', ''logistics'', ''warehousing'', ''distribution'',
         ''procurement'', ''inventory'', ''freight''])]"

definition DEFAULT_JDS :: "(string \<times> string) list" where
  "DEFAULT_JDS =
     [(''marketing'', ''Marketing Manager: Expertise in B2B/B2C marketing, demand generation, campaign execution, digital marketing (SEO, SEM, PPC), content strategy, and marketing analytics.''),
      (''software'', ''Senior Software Engineer: Skilled in Python, Java, Go, data structures, algorithms, cloud computing (AWS/Azure/GCP), microservices architecture, Docker, Kubernetes, and SQL/NoSQL databases.''),
      (''graphic_designer'', ''Graphic Designer: Proficiency in Adobe Creative Suite (Photoshop, Illustrator, InDesign), Figma, and Sketch. Experience in UI/UX design, branding, and creating visual assets for digital and print media.''),
      (''scm'', ''Supply Chain Manager: Experience in logistics, inventory management, procurement, vendor relations, warehousing, and distribution. Focus on optimizing processes and reducing costs.''),
      (''generic'', ''A general professional role with a focus on clear communication, quantifiable achievements, leadership, project management, and problem-solving skills.'')]"

subsection \<open>External collaborators\<close>

text \<open>
  The spaCy pipeline \<open>nlp\<close> turns a text into tokens, of which the program reads four
  attributes. The global \<open>nlp\<close> is \<open>None\<close> when the model failed to load. The summarizer
  is \<open>None\<close> in the same way, and a call of it may raise, which is the result \<open>None\<close>.
\<close>

record token =
  tok_lemma :: string  \<comment> \<open>the attribute \<open>lemma_\<close>\<close>
  is_stop :: bool
  is_punct :: bool
  is_alpha :: bool

type_synonym lemmatizer = "string \<Rightarrow> token list"

type_synonym summarizer = "string \<Rightarrow> string option"

subsection \<open>Section segmentation\<close>

datatype section_key = Profile_Summary | Work_Experience | Education | Skills

definition section_keywords :: "(section_key \<times> string list) list" where
  "section_keywords =
     [(Profile_Summary, [''summary'', ''profile'', ''objective'']),
      (Work_Experience, [''experience'', ''work history'', ''professional experience'',
         ''experience details'']),
      (Education, [''education'', ''academic background'', ''academic record'',
         ''professional qualification'']),
      (Skills, [''skills'', ''technical skills'', ''technical proficiency'', ''tools'',
         ''skill set'', ''core competencies'', ''areas of expertise'', ''computer skills''])]"

definition keyword_to_section :: "string \<rightharpoonup> section_key" where
  \<comment> \<open>the keywords are distinct, so no entry of the comprehension overwrites another\<close>
  "keyword_to_section =
     map_of (concat (map (\<lambda>(key, kws). map (\<lambda>kw. (kw, key)) kws) section_keywords))"

definition cleaned_line :: "string \<Rightarrow> string" where
  "cleaned_line line = remove_char (CHR '':'') (lower (strip line))"

definition is_heading :: "string \<Rightarrow> bool" where
  "is_heading line =
     (1 \<le> length (split_ws (cleaned_line line)) \<and> length (split_ws (cleaned_line line)) \<le> 4
      \<and> keyword_to_section (cleaned_line line) \<noteq> None)"

fun parse_lines ::
  "section_key option \<Rightarrow> (section_key \<Rightarrow> string list) \<Rightarrow> string list
     \<Rightarrow> (section_key \<Rightarrow> string list)" where
  "parse_lines current_section sections [] = sections"
| "parse_lines current_section sections (line # lines) =
     (if is_heading line
      then parse_lines (keyword_to_section (cleaned_line line)) sections lines
      else (case current_section of
              None \<Rightarrow> parse_lines current_section sections lines
            | Some k \<Rightarrow>
                parse_lines current_section (sections(k := sections k @ [line])) lines))"

definition parse_sections_by_iteration :: "string \<Rightarrow> (section_key \<rightharpoonup> string)" where
  "parse_sections_by_iteration text =
     (let sections = parse_lines None (\<lambda>k. []) (split_on newline text)
      in (\<lambda>k. Some (strip (join [newline] (sections k)))))"

subsection \<open>Job-description matching\<close>

record match_result =
  score :: int
  missing_keywords :: "string list"
  overlap_keywords :: "string list"

definition lemma_set :: "lemmatizer \<Rightarrow> string \<Rightarrow> string set" where
  "lemma_set f text =
     set (map tok_lemma
       (filter (\<lambda>t. \<not> is_stop t \<and> \<not> is_punct t \<and> is_alpha t) (f (lower text))))"

definition match_job_description ::
  "lemmatizer option \<Rightarrow> string \<Rightarrow> string \<Rightarrow> match_result" where
  "match_job_description nlp resume_text job_description_text =
     (case nlp of
        None \<Rightarrow> \<lparr>score = 0, missing_keywords = [], overlap_keywords = []\<rparr>
      | Some f \<Rightarrow>
          let resume_lemmas = lemma_set f resume_text;
              jd_lemmas = lemma_set f job_description_text
          in if jd_lemmas = {}
             then \<lparr>score = 0, missing_keywords = [], overlap_keywords = []\<rparr>
             else let overlap = resume_lemmas \<inter> jd_lemmas
                  in \<lparr>score = py_int (float_mul
                                 (int_true_div (int (card overlap)) (int (card jd_lemmas)))
                                 (float_of_int 100)),
                      missing_keywords = sorted_list_of_set (jd_lemmas - resume_lemmas),
                      overlap_keywords = sorted_list_of_set overlap\<rparr>)"

text \<open>
  The score as the specification words it: the rounded percentage of the lemmas of the
  job description that the resume has.
\<close>

definition spec_percentage :: "string set \<Rightarrow> string set \<Rightarrow> rat" where
  "spec_percentage resume_lemmas jd_lemmas =
     100 * of_nat (card (resume_lemmas \<inter> jd_lemmas)) / of_nat (card jd_lemmas)"

definition spec_match_score :: "string set \<Rightarrow> string set \<Rightarrow> int" where
  "spec_match_score resume_lemmas jd_lemmas =
     (if jd_lemmas = {} then 0 else round_half_even (spec_percentage resume_lemmas jd_lemmas))"

subsection \<open>Issue compilation\<close>

definition get_section :: "(section_key \<rightharpoonup> string) \<Rightarrow> section_key \<Rightarrow> string" where
  \<comment> \<open>\<open>sections.get(key, "")\<close>; a missing key is as false as the empty string\<close>
  "get_section sections k = (case sections k of None \<Rightarrow> [] | Some t \<Rightarrow> t)"

fun year_at :: "string \<Rightarrow> bool" where
  \<comment> \<open>\<open>(19|20)\d{2}\b\<close> matches at the start of the string\<close>
  "year_at (a # b # c # d # rest) =
     ((a = CHR ''1'' \<and> b = CHR ''9'' \<or> a = CHR ''2'' \<and> b = CHR ''0'')
      \<and> is_decimal c \<and> is_decimal d
      \<and> (case rest of [] \<Rightarrow> True | e # _ \<Rightarrow> \<not> is_word_char e))"
| "year_at _ = False"

fun search_year :: "bool \<Rightarrow> string \<Rightarrow> bool" where
  \<comment> \<open>the flag says that the character before is a word character\<close>
  "search_year prev [] = False"
| "search_year prev (c # cs) =
     ((\<not> prev \<and> year_at (c # cs)) \<or> search_year (is_word_char c) cs)"

definition has_year :: "string \<Rightarrow> bool" where
  \<comment> \<open>\<open>re.search(r'\b(19|20)\d{2}\b', s)\<close> finds a match\<close>
  "has_year s = search_year False s"

definition msg_no_skills :: string where
  "msg_no_skills = ''A dedicated 'Skills' section is crucial for ATS and is missing.''"

definition msg_no_experience :: string where
  "msg_no_experience = ''A standard 'Work Experience' section was not found.''"

definition msg_buzzwords :: "string list \<Rightarrow> string" where
  "msg_buzzwords found = ''Profile summary uses buzzwords: '' @ join '', '' found @ ''.''"

definition msg_value_proposition :: string where
  "msg_value_proposition = ''Profile summary may lack a clear value proposition.''"

definition msg_degree :: string where
  "msg_degree = ''Education section may be missing degree or institution information.''"

definition msg_year :: string where
  "msg_year = ''Education section is missing a clear graduation year.''"

definition msg_no_education :: string where
  "msg_no_education = ''An 'Education' section was not found.''"

definition msg_quantification :: string where
  "msg_quantification = ''Work experience lacks quantification. Add metrics to show impact.''"

definition summary_issues :: "string \<Rightarrow> string list" where
  \<comment> \<open>a Python set has no order; the buzzwords found are listed in the order of the table\<close>
  "summary_issues summary_text =
     (if summary_text = [] then []
      else (let found_buzzwords =
                  filter (\<lambda>b. b \<in> set (split_ws (lower summary_text))) BUZZWORDS
            in if found_buzzwords = [] then [] else [msg_buzzwords found_buzzwords])
           @ (if \<not> list_ex isdigit summary_text
                 \<and> \<not> list_ex (\<lambda>verb. contains verb (lower summary_text)) ACTION_VERBS
              then [msg_value_proposition] else []))"

definition education_issues :: "string \<Rightarrow> string list" where
  "education_issues education_text =
     (if education_text = [] then [msg_no_education]
      else (if \<not> list_ex (\<lambda>term. contains term (lower education_text)) EDUCATION_TERMS
            then [msg_degree] else [])
           @ (if \<not> has_year education_text then [msg_year] else []))"

definition experience_lines :: "string \<Rightarrow> string list" where
  "experience_lines exp_text =
     filter (\<lambda>line. 15 < length (strip line)) (split_on newline exp_text)"

definition quantified_lines :: "string list \<Rightarrow> nat" where
  "quantified_lines lines = length (filter (\<lambda>line. list_ex isdigit line) lines)"

definition quantification_ratio :: "string list \<Rightarrow> rat" where
  "quantification_ratio lines =
     (if lines = [] then 0
      else int_true_div (int (quantified_lines lines)) (int (length lines)))"

definition experience_issues :: "string \<Rightarrow> string list" where
  "experience_issues exp_text =
     (if exp_text = [] then []
      else if quantification_ratio (experience_lines exp_text) < fl (3 / 10)
           then [msg_quantification] else [])"


definition compile_issues ::
  "lemmatizer option \<Rightarrow> (section_key \<rightharpoonup> string) \<Rightarrow> string
     \<Rightarrow> string list \<times> string list \<times> string list" where
  "compile_issues nlp sections raw_text =
     (let formatting_issues =
            (if get_section sections Skills = [] then [msg_no_skills] else [])
            @ (if get_section sections Work_Experience = [] then [msg_no_experience] else []);
          content_issues =
            summary_issues (get_section sections Profile_Summary)
            @ education_issues (get_section sections Education)
            @ experience_issues (get_section sections Work_Experience);
          outdated_tech =
            (case nlp of
               None \<Rightarrow> []
             | Some f \<Rightarrow>
                 filter (\<lambda>t. t \<in> set (map (\<lambda>tok. lower (tok_lemma tok)) (f raw_text)))
                   OUTDATED_TECH)
      in (formatting_issues, content_issues, outdated_tech))"

subsection \<open>Scoring\<close>

definition quality_score :: "string list \<Rightarrow> string list \<Rightarrow> string list \<Rightarrow> int" where
  "quality_score formatting_issues content_issues outdated_tech =
     (let total_failures = int (length formatting_issues) + int (length content_issues)
      in max 0 (100 - total_failures * 10 - int (length outdated_tech) * 5))"

definition grade_table :: "(int \<times> string) list" where
  "grade_table = [(80, ''A''), (70, ''B''), (60, ''C''), (40, ''D'')]"

definition grade_of :: "int \<Rightarrow> string" where
  \<comment> \<open>\<open>next((g for t, g in table.items() if final_score >= t), "F")\<close>\<close>
  "grade_of final_score =
     (case find (\<lambda>(t, g). t \<le> final_score) grade_table of
        Some (t, g) \<Rightarrow> g
      | None \<Rightarrow> ''F'')"

definition grade_rank :: "string \<Rightarrow> nat" where
  \<comment> \<open>the order of the grades, \<open>F\<close> lowest, in which the claims compare them\<close>
  "grade_rank g =
     (if g = ''A'' then 4 else if g = ''B'' then 3 else if g = ''C'' then 2
      else if g = ''D'' then 1 else 0)"

definition calculate_scores ::
  "string list \<Rightarrow> string list \<Rightarrow> string list \<Rightarrow> int \<Rightarrow> int \<times> string" where
  "calculate_scores formatting_issues content_issues outdated_tech jd_match_score =
     (let q = quality_score formatting_issues content_issues outdated_tech;
          final_score =
            py_round (float_add (float_mul (float_of_int q) (fl (4 / 10)))
                                (float_mul (float_of_int jd_match_score) (fl (6 / 10))))
      in (final_score, grade_of final_score))"

subsection \<open>Recommendations\<close>

text \<open>
  The function reads only \<open>report['classified_checks']\<close>. Every read is a \<open>get\<close> with a
  default, so each entry may be absent, which is \<open>None\<close> here.
\<close>

record classified_checks =
  formatting_issues_of :: "string list option"  \<comment> \<open>\<open>["Formatting & ATS"]["issues"]\<close>\<close>
  content_issues_of :: "string list option"  \<comment> \<open>\<open>["Content & Impact"]["issues"]\<close>\<close>
  job_fit_score :: "int option"  \<comment> \<open>\<open>["Job Fit"]["score"]\<close>\<close>
  job_fit_missing :: "string list option"  \<comment> \<open>\<open>["Job Fit"]["missing_keywords"]\<close>\<close>
  job_fit_overlap :: "string list option"  \<comment> \<open>\<open>["Job Fit"]["overlap_keywords"]\<close>\<close>
  outdated_tech_of :: "string list option"  \<comment> \<open>\<open>["Technology Freshness"]["outdated_tech"]\<close>\<close>

definition get_default :: "'a \<Rightarrow> 'a option \<Rightarrow> 'a" where
  "get_default d v = (case v of None \<Rightarrow> d | Some x \<Rightarrow> x)"

definition rec_job_fit :: "string list \<Rightarrow> string" where
  "rec_job_fit keywords =
     ''**Improve Job Fit:** Your resume is missing key terms from the job description. To better match the role, integrate these keywords: **''
     @ join '', '' keywords @ ''**.''"

definition rec_section_headers :: string where
  "rec_section_headers = ''**Check Section Headers:** To ensure automated systems read your resume correctly, use standard titles like **'Work Experience'** and **'Technical Skills'**.''"

definition rec_profile_summary :: string where
  "rec_profile_summary = ''**Rewrite Your Profile Summary:** Your summary may use generic phrases. Create a stronger value proposition with powerful action verbs and achievements.''"

definition rec_quantify :: string where
  "rec_quantify = ''**Quantify Your Achievements:** Your work experience lacks metrics. Strengthen your bullet points by adding numbers, percentages (%), or dollar amounts ($).''"

definition rec_technology :: string where
  "rec_technology = ''**Update Your Technology Stack:** Your resume mentions potentially outdated technologies. Prioritize highlighting modern tools relevant to the job.''"

definition rec_fallback :: string where
  "rec_fallback = ''Your resume is strong and well-aligned. No major recommendations at this time.''"

definition generate_personalized_recommendations :: "classified_checks \<Rightarrow> string list" where
  "generate_personalized_recommendations checks =
     (let missing = get_default [] (job_fit_missing checks);
          r1 = (if get_default 100 (job_fit_score checks) < 75 \<and> missing \<noteq> []
                then [rec_job_fit (take 8 missing)] else []);
          ats_issues = get_default [] (formatting_issues_of checks);
          r2 = (if list_ex (contains ''section'') ats_issues
                then r1 @ [rec_section_headers] else r1);
          content_issues = get_default [] (content_issues_of checks);
          r3 = (if list_ex (contains ''value proposition'') content_issues
                then r2 @ [rec_profile_summary] else r2);
          r4 = (if list_ex (contains ''quantification'') content_issues
                then r3 @ [rec_quantify] else r3);
          r5 = (if get_default [] (outdated_tech_of checks) \<noteq> []
                then r4 @ [rec_technology] else r4)
      in if r5 = [] then [rec_fallback] else r5)"

subsection \<open>Text extraction\<close>

text \<open>
  The file system and the libraries answer as follows. Opening a file gives its pages or
  paragraphs, or raises (\<open>None\<close>). Each page has a text layer and the outcome of recognising
  its rendered image when the Tesseract engine is installed: a text, or an exception of
  the engine. Without the engine the call raises \<open>TesseractNotFoundError\<close>. Reading the
  text layer of a page and rendering a page to an image are taken to succeed.
\<close>

datatype ocr_outcome = OcrText string | OcrFailure

record pdf_page =
  get_text :: string
  image_to_string :: ocr_outcome

record resume_file =
  extension :: string  \<comment> \<open>\<open>os.path.splitext(filepath)[1]\<close>\<close>
  open_pdf :: "pdf_page list option"
  open_docx :: "string list option"

record environment =
  env_nlp :: "lemmatizer option"
  env_summarizer :: "summarizer option"
  env_tesseract :: bool

definition TESSERACT_NOT_FOUND :: string where
  "TESSERACT_NOT_FOUND = ''TESSERACT_NOT_FOUND''"

fun ocr_pages :: "bool \<Rightarrow> pdf_page list \<Rightarrow> string \<Rightarrow> string \<times> bool" where
  "ocr_pages tesseract [] full_text = (strip full_text, True)"
| "ocr_pages tesseract (page # pages) full_text =
     (if \<not> tesseract then (TESSERACT_NOT_FOUND, False)
      else (case image_to_string page of
              OcrFailure \<Rightarrow> ([], False)
            | OcrText page_text \<Rightarrow> ocr_pages tesseract pages (full_text @ page_text @ [newline])))"

definition extract_text_from_pdf :: "bool \<Rightarrow> pdf_page list option \<Rightarrow> string \<times> bool" where
  "extract_text_from_pdf tesseract doc =
     (case doc of
        None \<Rightarrow> ([], False)
      | Some pages \<Rightarrow>
          let full_text = concat (map get_text pages)
          in if length (strip full_text) < 150 then ocr_pages tesseract pages []
             else (strip full_text, False))"

definition extract_text_from_docx :: "string list option \<Rightarrow> string \<times> bool" where
  "extract_text_from_docx doc =
     (case doc of
        None \<Rightarrow> ([], False)
      | Some paragraphs \<Rightarrow> (strip (join [newline] paragraphs), False))"

definition normalize_and_parse ::
  "string \<times> bool \<Rightarrow> string option \<times> (section_key \<rightharpoonup> string) \<times> bool" where
  "normalize_and_parse extracted =
     (case extracted of (raw_text, is_graphics_heavy) \<Rightarrow>
        if raw_text = [] \<or> raw_text = TESSERACT_NOT_FOUND
        then (Some raw_text, Map.empty, is_graphics_heavy)
        else let normalized_text =
                   strip (sub_newline_runs [newline] (collapse_blanks False raw_text))
             in (Some normalized_text, parse_sections_by_iteration normalized_text,
                 is_graphics_heavy))"

definition master_text_extractor ::
  "environment \<Rightarrow> resume_file \<Rightarrow> string option \<times> (section_key \<rightharpoonup> string) \<times> bool" where
  "master_text_extractor env file =
     (let ext = lower (extension file)
      in if ext = ''.pdf''
         then normalize_and_parse (extract_text_from_pdf (env_tesseract env) (open_pdf file))
         else if ext = ''.docx''
         then normalize_and_parse (extract_text_from_docx (open_docx file))
         else (None, Map.empty, False))"

subsection \<open>The orchestrator\<close>

definition generate_ai_summary :: "summarizer option \<Rightarrow> string \<Rightarrow> string" where
  "generate_ai_summary summarizer resume_text =
     (case summarizer of
        None \<Rightarrow> ''AI summary model is unavailable.''
      | Some f \<Rightarrow>
          (case f (take 2048 (strip (sub_newline_runs '' '' resume_text))) of
             None \<Rightarrow> ''Could not generate a unique AI summary.''
           | Some summary_text \<Rightarrow> strip summary_text))"

definition domain_scores :: "string \<Rightarrow> (string \<times> int) list" where
  "domain_scores text_lower =
     map (\<lambda>(domain, keywords).
            (domain, int (length (filter (\<lambda>keyword. contains keyword text_lower) keywords))))
       DOMAIN_KEYWORDS"

definition py_max_key :: "('a \<Rightarrow> int) \<Rightarrow> 'a list \<Rightarrow> 'a" where
  \<comment> \<open>\<open>max(xs, key=f)\<close> for a list that is not empty: the first of the greatest elements.
      The program calls it on the four domains only.\<close>
  "py_max_key f xs = foldl (\<lambda>best x. if f best < f x then x else best) (hd xs) (tl xs)"

definition infer_domain :: "string \<Rightarrow> string" where
  "infer_domain raw_text =
     (let scores = domain_scores (lower raw_text);
          score_of = (\<lambda>d. get_default 0 (map_of scores d));
          best_domain = py_max_key score_of (map fst scores)
      in if 2 < score_of best_domain then best_domain else ''generic'')"

definition choose_job_description :: "string \<Rightarrow> string option \<Rightarrow> string option" where
  \<comment> \<open>the value of \<open>job_description_text\<close> after the \<open>if not job_description_text\<close> block;
      \<open>None\<close> is what \<open>DEFAULT_JDS.get\<close> returns for a key that is missing\<close>
  "choose_job_description raw_text job_description_text =
     (if job_description_text = None \<or> job_description_text = Some []
      then map_of DEFAULT_JDS (infer_domain raw_text)
      else job_description_text)"

text \<open>
  The count by which the specification scores a domain: the keywords of its entry in the
  table that occur in the lowercased text.
\<close>

definition spec_keyword_hits :: "string \<Rightarrow> string \<times> string list \<Rightarrow> int" where
  "spec_keyword_hits raw_text entry =
     int (length (filter (\<lambda>keyword. contains keyword (lower raw_text)) (snd entry)))"

record report =
  overall_score :: int
  resume_grade :: string
  ai_generated_summary :: string
  checks_of :: classified_checks
  personalized_recommendations :: "string list"

datatype analysis =
    Error string  \<comment> \<open>the result \<open>{"error": message}\<close>\<close>
  | Report report
  | Raised  \<comment> \<open>an exception leaves the function\<close>

definition msg_extraction_failed :: string where
  "msg_extraction_failed = ''Failed to extract text. File may be corrupted or an unsupported format.''"

definition msg_tesseract :: string where
  "msg_tesseract = ''Tesseract OCR is not installed.''"

definition msg_graphics_heavy :: string where
  "msg_graphics_heavy = ''Resume appears to be graphics-heavy or image-based.''"

definition build_report ::
  "environment \<Rightarrow> string \<Rightarrow> (section_key \<rightharpoonup> string) \<Rightarrow> bool \<Rightarrow> match_result \<Rightarrow> report" where
  \<comment> \<open>the body of \<open>analyze_resume\<close> after the call of \<open>match_job_description\<close>\<close>
  "build_report env raw_text sections is_graphics_heavy jd_match =
     (case compile_issues (env_nlp env) sections raw_text of
        (formatting_issues0, content_issues, outdated_tech) \<Rightarrow>
          let formatting_issues =
                (if is_graphics_heavy then formatting_issues0 @ [msg_graphics_heavy]
                 else formatting_issues0);
              scores = calculate_scores formatting_issues content_issues outdated_tech
                         (score jd_match);
              checks = \<lparr>formatting_issues_of = Some formatting_issues,
                        content_issues_of = Some content_issues,
                        job_fit_score = Some (score jd_match),
                        job_fit_missing = Some (missing_keywords jd_match),
                        job_fit_overlap = Some (overlap_keywords jd_match),
                        outdated_tech_of = Some outdated_tech\<rparr>
          in \<lparr>overall_score = fst scores, resume_grade = snd scores,
              ai_generated_summary = generate_ai_summary (env_summarizer env) raw_text,
              checks_of = checks,
              personalized_recommendations = generate_personalized_recommendations checks\<rparr>)"

definition analyze_resume :: "environment \<Rightarrow> resume_file \<Rightarrow> string option \<Rightarrow> analysis" where
  "analyze_resume env file job_description_text =
     (case master_text_extractor env file of
        (raw, sections, is_graphics_heavy) \<Rightarrow>
          if raw = None \<or> raw = Some [] then Error msg_extraction_failed
          else if raw = Some TESSERACT_NOT_FOUND then Error msg_tesseract
          else let raw_text = get_default [] raw
               in (case choose_job_description raw_text job_description_text of
                     Some jd \<Rightarrow>
                       Report (build_report env raw_text sections is_graphics_heavy
                         (match_job_description (env_nlp env) raw_text jd))
                   | None \<Rightarrow>
                       \<comment> \<open>\<open>None.lower()\<close> raises, unless \<open>nlp\<close> is missing and the text is not read\<close>
                       (if env_nlp env = None
                        then Report (build_report env raw_text sections is_graphics_heavy
                          \<lparr>score = 0, missing_keywords = [], overlap_keywords = []\<rparr>)
                        else Raised)))"

subsection \<open>Stand-ins for the worked examples\<close>

text \<open>
  A lemmatizer for the examples: one token for each word between whitespace, the word as
  its own lemma, none of them a stop word or punctuation.
\<close>

definition example_nlp :: lemmatizer where
  "example_nlp text =
     map (\<lambda>w. \<lparr>tok_lemma = w, is_stop = False, is_punct = False, is_alpha = True\<rparr>)
       (split_ws text)"



text \<open>
  An environment without lemmatizer, summarizer and OCR engine; a DOCX of one paragraph;
  a scanned PDF of one page; a PDF without pages; the text of the scenario of the
  specification.
\<close>

definition example_env :: environment where
  "example_env = \<lparr>env_nlp = None, env_summarizer = None, env_tesseract = False\<rparr>"

definition example_docx :: resume_file where
  "example_docx =
     \<lparr>extension = ''.docx'', open_pdf = None,
      open_docx = Some [''Python developer, AWS and Java'']\<rparr>"



definition example_scenario :: string where
  "example_scenario = ''Summary\<newline>A dynamic team player.\<newline>Skills\<newline>Python, AWS''"

section \<open>Properties\<close>

subsection \<open>Rounding to binary64\<close>

lemma round_half_even_error: "\<bar>of_int (round_half_even z) - z\<bar> \<le> 1 / 2"
proof -
  define f where "f = \<lfloor>z\<rfloor>"
  have b: "of_int f \<le> z" "z < of_int f + 1" unfolding f_def by linarith+
  have "round_half_even z = f \<and> z - of_int f \<le> 1 / 2
        \<or> round_half_even z = f + 1 \<and> 1 / 2 \<le> z - of_int f"
    unfolding round_half_even_def Let_def f_def[symmetric] by auto
  then show ?thesis using b by auto
qed

lemma round_half_even_near:
  assumes "\<bar>y - of_int n\<bar> < 1 / 2"
  shows "round_half_even y = n"
proof -
  have "\<lfloor>y\<rfloor> = n \<or> \<lfloor>y\<rfloor> = n - 1" using assms by (auto; linarith)
  then show ?thesis
  proof
    assume h: "\<lfloor>y\<rfloor> = n"
    then have "y - of_int n < 1 / 2" using assms by linarith
    then show ?thesis using h by (simp add: round_half_even_def Let_def)
  next
    assume h: "\<lfloor>y\<rfloor> = n - 1"
    then have "1 / 2 < y - of_int (n - 1)" using assms by (simp; linarith)
    then show ?thesis using h by (simp add: round_half_even_def Let_def)
  qed
qed

lemma round_half_even_of_int: "round_half_even (of_int k) = k"
  by (rule round_half_even_near) simp

lemma float_exponent_bounds:
  assumes "0 < x"
  shows "2 powi (float_exponent x) \<le> x" and "x < 2 powi (float_exponent x + 1)"
proof -
  obtain p q where pq: "quotient_of x = (p, q)" by (cases "quotient_of x")
  have q: "0 < q" using pq by (rule quotient_of_denom_pos)
  have x: "x = of_int p / of_int q" using pq by (rule quotient_of_div)
  have p: "0 < p" using assms q x by (simp add: zero_less_divide_iff)
  define d where "d = bitlen p - bitlen q"
  have bp: "2 ^ nat (bitlen p - 1) \<le> p" "p < 2 ^ nat (bitlen p)" using bitlen_bounds[OF p] by auto
  have bq: "2 ^ nat (bitlen q - 1) \<le> q" "q < 2 ^ nat (bitlen q)" using bitlen_bounds[OF q] by auto
  have bp1: "1 \<le> bitlen p" using p bitlen_eq_zero_iff[of p] bitlen_nonneg[of p] by linarith
  have bq1: "1 \<le> bitlen q" using q bitlen_eq_zero_iff[of q] bitlen_nonneg[of q] by linarith
  have P1: "(2::rat) powi (bitlen p - 1) \<le> of_int p"
  proof -
    have "(of_int (2 ^ nat (bitlen p - 1)) :: rat) \<le> of_int p" using bp(1) by (simp only: of_int_le_iff)
    then show ?thesis using bp1 by (simp add: power_int_def)
  qed
  have P2: "of_int p < (2::rat) powi (bitlen p)"
  proof -
    have "(of_int p :: rat) < of_int (2 ^ nat (bitlen p))" using bp(2) by (simp only: of_int_less_iff)
    then show ?thesis using bp1 by (simp add: power_int_def)
  qed
  have Q1: "(2::rat) powi (bitlen q - 1) \<le> of_int q"
  proof -
    have "(of_int (2 ^ nat (bitlen q - 1)) :: rat) \<le> of_int q" using bq(1) by (simp only: of_int_le_iff)
    then show ?thesis using bq1 by (simp add: power_int_def)
  qed
  have Q2: "of_int q < (2::rat) powi (bitlen q)"
  proof -
    have "(of_int q :: rat) < of_int (2 ^ nat (bitlen q))" using bq(2) by (simp only: of_int_less_iff)
    then show ?thesis using bq1 by (simp add: power_int_def)
  qed
  have qpos: "(0::rat) < of_int q" using q by simp
  have up: "x < 2 powi (d + 1)"
  proof -
    have "of_int p < (2::rat) powi (d + 1) * 2 powi (bitlen q - 1)"
      using P2 by (simp add: d_def power_int_add[symmetric])
    also have "\<dots> \<le> 2 powi (d + 1) * of_int q"
      using Q1 by (simp add: mult_left_mono)
    finally show ?thesis using qpos by (simp add: x pos_divide_less_eq)
  qed
  have lo: "2 powi (d - 1) < x"
  proof -
    have "(2::rat) powi (d - 1) * of_int q < 2 powi (d - 1) * 2 powi (bitlen q)"
      using Q2 by (simp add: mult_strict_left_mono)
    also have "\<dots> = 2 powi (bitlen p - 1)" by (simp add: d_def power_int_add[symmetric])
    also have "\<dots> \<le> of_int p" by (rule P1)
    finally show ?thesis using qpos by (simp add: x pos_less_divide_eq)
  qed
  have e: "float_exponent x = (if 2 powi d \<le> x then d else d - 1)"
    by (simp add: float_exponent_def pq d_def Let_def)
  show "2 powi (float_exponent x) \<le> x" using lo by (simp add: e)
  show "x < 2 powi (float_exponent x + 1)" using up by (auto simp add: e)
qed

lemma fl_error:
  assumes "0 < x"
  shows "\<bar>fl x - x\<bar> \<le> x / 2 ^ 53"
proof -
  define e where "e = float_exponent x"
  define u :: rat where "u = 2 powi (e - 52)"
  have u: "0 < u" by (simp add: u_def)
  have flx: "fl x = of_int (round_half_even (x / u)) * u"
    using assms by (simp add: fl_def e_def u_def Let_def)
  have "\<bar>fl x - x\<bar> = \<bar>of_int (round_half_even (x / u)) - x / u\<bar> * u"
  proof -
    have "fl x - x = (of_int (round_half_even (x / u)) - x / u) * u"
      using u by (simp add: flx left_diff_distrib)
    then show ?thesis using u by (simp add: abs_mult)
  qed
  also have "\<dots> \<le> (1 / 2) * u"
    using round_half_even_error[of "x / u"] u by (intro mult_right_mono) auto
  also have "\<dots> = 2 powi e / 2 ^ 53"
    by (simp add: u_def power_int_diff)
  also have "\<dots> \<le> x / 2 ^ 53"
    using float_exponent_bounds(1)[OF assms] by (simp add: e_def divide_right_mono)
  finally show ?thesis .
qed

lemma fl_nonneg: "0 \<le> x \<Longrightarrow> 0 \<le> fl x"
proof (cases "x = 0")
  case True then show ?thesis by (simp add: fl_def)
next
  case False
  assume "0 \<le> x"
  then have "0 < x" using False by simp
  from fl_error[OF this] have "x - x / 2 ^ 53 \<le> fl x" by linarith
  moreover have "0 \<le> x - x / 2 ^ 53" using \<open>0 < x\<close> by (simp add: field_simps)
  ultimately show ?thesis by linarith
qed

lemma fl_error_le:
  assumes "0 \<le> x" "x \<le> B"
  shows "\<bar>fl x - x\<bar> \<le> B / 2 ^ 53"
proof (cases "x = 0")
  case True then show ?thesis using assms by (simp add: fl_def)
next
  case False
  then have "0 < x" using assms by simp
  from fl_error[OF this] have "\<bar>fl x - x\<bar> \<le> x / 2 ^ 53" .
  also have "\<dots> \<le> B / 2 ^ 53" using assms by (simp add: divide_right_mono)
  finally show ?thesis .
qed


lemma fl_bounds:
  assumes "0 \<le> x" "x \<le> B"
  shows "x - B / 9007199254740992 \<le> fl x" and "fl x \<le> x + B / 9007199254740992"
proof -
  have p: "(2::rat) ^ 53 = 9007199254740992" by simp
  have "\<bar>fl x - x\<bar> \<le> B / 9007199254740992"
    using fl_error_le[OF assms] unfolding p .
  then show "x - B / 9007199254740992 \<le> fl x" and "fl x \<le> x + B / 9007199254740992"
    by linarith+
qed

lemma fl_four_tenths: "fl (4 / 10) = 3602879701896397 / 9007199254740992"
  by code_simp

lemma fl_six_tenths: "fl (6 / 10) = 5404319552844595 / 9007199254740992"
  by code_simp

lemma round_fifths:
  fixes m :: int
  assumes "\<bar>s - of_int m / 5\<bar> < 1 / 10"
  shows "round_half_even s = (m + 2) div 5"
proof -
  define n where "n = (m + 2) div 5"
  define r where "r = (m + 2) mod 5"
  define M :: rat where "M = of_int m"
  define N :: rat where "N = of_int n"
  define R :: rat where "R = of_int r"
  have r: "0 \<le> r" "r \<le> 4" by (simp_all add: r_def)
  have m: "m = 5 * n + r - 2" unfolding n_def r_def by simp
  have MNR: "M = 5 * N + R - 2" unfolding M_def N_def R_def by (subst m) simp
  have R: "0 \<le> R" "R \<le> 4" using r unfolding R_def by simp_all
  have "\<bar>s - M / 5\<bar> < 1 / 10" using assms by (simp only: M_def)
  then have "\<bar>s - N\<bar> < 1 / 2" using MNR R by linarith
  then have "round_half_even s = n" unfolding N_def by (rule round_half_even_near)
  then show ?thesis by (simp only: n_def)
qed

lemma weighted_sum_float:
  fixes q j :: int
  assumes q: "0 \<le> q" "q \<le> 100" and j: "0 \<le> j" "j \<le> 100"
  shows "\<bar>float_add (float_mul (float_of_int q) (fl (4 / 10)))
                    (float_mul (float_of_int j) (fl (6 / 10)))
          - of_int (2 * q + 3 * j) / 5\<bar> < 1 / 10"
proof -
  define a0 where "a0 = fl (of_int q)"
  define a1 where "a1 = fl (a0 * (3602879701896397 / 9007199254740992))"
  define b0 where "b0 = fl (of_int j)"
  define b1 where "b1 = fl (b0 * (5404319552844595 / 9007199254740992))"
  define s where "s = fl (a1 + b1)"
  have Q: "(0::rat) \<le> of_int q" "(of_int q :: rat) \<le> 100" using q by simp_all
  have J: "(0::rat) \<le> of_int j" "(of_int j :: rat) \<le> 100" using j by simp_all
  have a0: "of_int q - 100 / 9007199254740992 \<le> a0" "a0 \<le> of_int q + 100 / 9007199254740992" "0 \<le> a0"
    unfolding a0_def using fl_bounds[OF Q] fl_nonneg[OF Q(1)] by auto
  have x1: "0 \<le> a0 * (3602879701896397 / 9007199254740992)"
           "a0 * (3602879701896397 / 9007199254740992) \<le> 41"
    using a0 Q by linarith+
  have a1: "a0 * (3602879701896397 / 9007199254740992) - 41 / 9007199254740992 \<le> a1"
           "a1 \<le> a0 * (3602879701896397 / 9007199254740992) + 41 / 9007199254740992" "0 \<le> a1"
    unfolding a1_def using fl_bounds[OF x1] fl_nonneg[OF x1(1)] by auto
  have b0: "of_int j - 100 / 9007199254740992 \<le> b0" "b0 \<le> of_int j + 100 / 9007199254740992" "0 \<le> b0"
    unfolding b0_def using fl_bounds[OF J] fl_nonneg[OF J(1)] by auto
  have x2: "0 \<le> b0 * (5404319552844595 / 9007199254740992)"
           "b0 * (5404319552844595 / 9007199254740992) \<le> 61"
    using b0 J by linarith+
  have b1: "b0 * (5404319552844595 / 9007199254740992) - 61 / 9007199254740992 \<le> b1"
           "b1 \<le> b0 * (5404319552844595 / 9007199254740992) + 61 / 9007199254740992" "0 \<le> b1"
    unfolding b1_def using fl_bounds[OF x2] fl_nonneg[OF x2(1)] by auto
  have x3: "0 \<le> a1 + b1" "a1 + b1 \<le> 103"
    using a1 b1 x1 x2 by linarith+
  have s: "a1 + b1 - 103 / 9007199254740992 \<le> s" "s \<le> a1 + b1 + 103 / 9007199254740992"
    unfolding s_def using fl_bounds[OF x3] by auto
  have E: "(of_int (2 * q + 3 * j) :: rat) / 5 = 2 / 5 * of_int q + 3 / 5 * of_int j"
    by simp
  have main: "\<bar>s - (2 / 5 * of_int q + 3 / 5 * of_int j)\<bar> < 1 / 10"
    using s a1 b1 a0 b0 Q J by linarith
  have eq: "float_add (float_mul (float_of_int q) (fl (4 / 10)))
              (float_mul (float_of_int j) (fl (6 / 10))) = s"
    by (simp only: float_add_def float_mul_def float_of_int_def fl_four_tenths
      fl_six_tenths s_def a1_def b1_def a0_def b0_def)
  show ?thesis unfolding eq E by (rule main)
qed

subsection \<open>Scoring\<close>

lemma quality_score_range:
  "0 \<le> quality_score fi ci ot" "quality_score fi ci ot \<le> 100"
  by (simp_all add: quality_score_def Let_def)

lemma final_score_exact:
  fixes q j :: int
  assumes "0 \<le> q" "q \<le> 100" "0 \<le> j" "j \<le> 100"
  shows "py_round (float_add (float_mul (float_of_int q) (fl (4 / 10)))
                             (float_mul (float_of_int j) (fl (6 / 10))))
         = (2 * q + 3 * j + 2) div 5"
  unfolding py_round_def using weighted_sum_float[OF assms] by (rule round_fifths)

lemma round_exact_weighted:
  fixes q j :: int
  shows "py_round (4 / 10 * of_int q + 6 / 10 * of_int j) = (2 * q + 3 * j + 2) div 5"
proof -
  have e: "(4 / 10 * of_int q + 6 / 10 * of_int j :: rat) = of_int (2 * q + 3 * j) / 5"
    by simp
  have "\<bar>(4 / 10 * of_int q + 6 / 10 * of_int j :: rat) - of_int (2 * q + 3 * j) / 5\<bar>
               < 1 / 10"
    unfolding e by simp
  then show ?thesis unfolding py_round_def by (rule round_fifths)
qed

lemma grade_of_thresholds:
  "grade_of s =
     (if 80 \<le> s then ''A'' else if 70 \<le> s then ''B'' else if 60 \<le> s then ''C''
      else if 40 \<le> s then ''D'' else ''F'')"
  by (simp add: grade_of_def grade_table_def)

lemma grade_of_mono: "s \<le> t \<Longrightarrow> grade_rank (grade_of s) \<le> grade_rank (grade_of t)"
  by (simp add: grade_of_thresholds grade_rank_def)

text \<open>
  C3. For all issue lists, every list of outdated technologies and every job-match score
  between 0 and 100, the final score of \<open>calculate_scores\<close>, computed in floating point, is
  the rounding of \<open>0.4 * max(0, 100 - 10 * (|formatting| + |content|) - 5 * |outdated|)
  + 0.6 * jd\<close> computed exactly; it lies between 0 and 100; the grade is the first of
  A (from 80), B (from 70), C (from 60), D (from 40) that the score reaches, else F; and
  of two results the one with the greater score has the greater or the same grade.
\<close>

theorem calculate_scores_spec:
  assumes "0 \<le> jd" "jd \<le> 100" "0 \<le> jd'" "jd' \<le> 100"
  shows "fst (calculate_scores fi ci ot jd)
           = py_round (4 / 10 * of_int (max 0 (100 - 10 * (int (length fi) + int (length ci))
                                               - 5 * int (length ot)))
                       + 6 / 10 * of_int jd)
         \<and> 0 \<le> fst (calculate_scores fi ci ot jd)
         \<and> fst (calculate_scores fi ci ot jd) \<le> 100
         \<and> snd (calculate_scores fi ci ot jd)
             = (if 80 \<le> fst (calculate_scores fi ci ot jd) then ''A''
                else if 70 \<le> fst (calculate_scores fi ci ot jd) then ''B''
                else if 60 \<le> fst (calculate_scores fi ci ot jd) then ''C''
                else if 40 \<le> fst (calculate_scores fi ci ot jd) then ''D'' else ''F'')
         \<and> (fst (calculate_scores fi ci ot jd) \<le> fst (calculate_scores fi' ci' ot' jd')
              \<longrightarrow> grade_rank (snd (calculate_scores fi ci ot jd))
                   \<le> grade_rank (snd (calculate_scores fi' ci' ot' jd')))"
proof -
  define q where "q = quality_score fi ci ot"
  have q: "0 \<le> q" "q \<le> 100" unfolding q_def by (rule quality_score_range)+
  have qeq: "q = max 0 (100 - 10 * (int (length fi) + int (length ci)) - 5 * int (length ot))"
    by (simp add: q_def quality_score_def Let_def algebra_simps)
  have f: "fst (calculate_scores fi ci ot jd) = (2 * q + 3 * jd + 2) div 5"
    unfolding calculate_scores_def Let_def q_def[symmetric] fst_conv
    by (rule final_score_exact[OF q assms(1,2)])
  have s: "snd (calculate_scores fi ci ot jd) = grade_of (fst (calculate_scores fi ci ot jd))"
    by (simp add: calculate_scores_def Let_def)
  have s': "snd (calculate_scores fi' ci' ot' jd')
              = grade_of (fst (calculate_scores fi' ci' ot' jd'))"
    by (simp add: calculate_scores_def Let_def)
  have 1: "fst (calculate_scores fi ci ot jd)
           = py_round (4 / 10 * of_int (max 0 (100 - 10 * (int (length fi) + int (length ci))
                                               - 5 * int (length ot)))
                       + 6 / 10 * of_int jd)"
    unfolding f qeq[symmetric] by (rule round_exact_weighted[symmetric])
  have 2: "0 \<le> fst (calculate_scores fi ci ot jd)" "fst (calculate_scores fi ci ot jd) \<le> 100"
    unfolding f using q assms(1,2) by linarith+
  have 3: "snd (calculate_scores fi ci ot jd)
             = (if 80 \<le> fst (calculate_scores fi ci ot jd) then ''A''
                else if 70 \<le> fst (calculate_scores fi ci ot jd) then ''B''
                else if 60 \<le> fst (calculate_scores fi ci ot jd) then ''C''
                else if 40 \<le> fst (calculate_scores fi ci ot jd) then ''D'' else ''F'')"
    unfolding s by (rule grade_of_thresholds)
  have 4: "fst (calculate_scores fi ci ot jd) \<le> fst (calculate_scores fi' ci' ot' jd')
              \<longrightarrow> grade_rank (snd (calculate_scores fi ci ot jd))
                   \<le> grade_rank (snd (calculate_scores fi' ci' ot' jd'))"
    unfolding s s' by (rule impI) (rule grade_of_mono)
  from 1 2 3 4 show ?thesis by blast
qed

theorem calculate_scores_spec_witness:
  "(0::int) \<le> 0 \<and> (0::int) \<le> 100 \<and> (0::int) \<le> 79 \<and> (79::int) \<le> 100
   \<and> calculate_scores [] [] [] 0 = (40, ''D'')
   \<and> calculate_scores [''x''] [] [''flash''] 79 = (81, ''A'')
   \<and> grade_rank (snd (calculate_scores [] [] [] 0))
       \<le> grade_rank (snd (calculate_scores [''x''] [] [''flash''] 79))"
proof -
  have h: "(0::int) \<le> 0" "(0::int) \<le> 100" "(0::int) \<le> 79" "(79::int) \<le> 100" by simp_all
  note t = calculate_scores_spec[OF h(1,2,3,4), of "[]" "[]" "[]" "[''x'']" "[]" "[''flash'']"]
  note u = calculate_scores_spec[OF h(3,4,1,2), of "[''x'']" "[]" "[''flash'']" "[]" "[]" "[]"]
  have f: "fst (calculate_scores [] [] [] 0) = 40"
    using t round_exact_weighted[of 100 0] by simp
  have g: "fst (calculate_scores [''x''] [] [''flash''] 79) = 81"
    using u round_exact_weighted[of 85 79] by simp
  have v: "calculate_scores [] [] [] 0 = (40, ''D'')"
    using t f by (simp add: prod_eq_iff)
  have w: "calculate_scores [''x''] [] [''flash''] 79 = (81, ''A'')"
    using u g by (simp add: prod_eq_iff)
  have b: "grade_rank (snd (calculate_scores [] [] [] 0))
       \<le> grade_rank (snd (calculate_scores [''x''] [] [''flash''] 79))"
    using v w by (simp add: grade_rank_def)
  from h v w b show ?thesis by blast
qed

subsection \<open>Job-description matching\<close>

lemma float_of_int_100: "float_of_int 100 = 100"
  by code_simp

lemma percent_truncated:
  fixes a b :: int
  assumes a: "0 \<le> a" "a \<le> b" and b: "0 < b" "b \<le> 2 ^ 45"
    and frac: "of_int \<lfloor>100 * of_int a / of_int b :: rat\<rfloor> \<noteq> (100 * of_int a / of_int b :: rat)"
  shows "py_int (float_mul (int_true_div a b) (float_of_int 100))
         = \<lfloor>100 * of_int a / of_int b :: rat\<rfloor>"
proof -
  define p :: rat where "p = 100 * of_int a / of_int b"
  define s where "s = py_int (float_mul (int_true_div a b) (float_of_int 100))"
  define A :: rat where "A = of_int a"
  define B :: rat where "B = of_int b"
  define x where "x = A / B"
  define f1 where "f1 = fl x"
  define f2 where "f2 = fl (f1 * 100)"
  define n where "n = \<lfloor>p\<rfloor>"
  define N :: rat where "N = of_int n"
  have B: "0 < B" "B \<le> 35184372088832" using b unfolding B_def by simp_all
  have A: "0 \<le> A" "A \<le> B" using a unfolding A_def B_def by simp_all
  have x: "0 \<le> x" "x \<le> 1" using A B unfolding x_def by simp_all
  have f1: "x - 1 / 9007199254740992 \<le> f1" "f1 \<le> x + 1 / 9007199254740992" "0 \<le> f1"
    unfolding f1_def using fl_bounds[OF x] fl_nonneg[OF x(1)] by auto
  have y: "0 \<le> f1 * 100" "f1 * 100 \<le> 101" using f1 x by linarith+
  have f2: "f1 * 100 - 101 / 9007199254740992 \<le> f2" "f2 \<le> f1 * 100 + 101 / 9007199254740992"
    "0 \<le> f2"
    unfolding f2_def using fl_bounds[OF y] fl_nonneg[OF y(1)] by auto
  have p: "p = 100 * x" by (simp add: p_def x_def A_def B_def)
  have s: "s = \<lfloor>f2\<rfloor>"
    using f2(3)
    by (simp add: s_def py_int_def float_mul_def int_true_div_def float_of_int_100
        f2_def f1_def x_def A_def B_def)
  have n: "N \<le> p" "p < N + 1" unfolding N_def n_def by linarith+
  have inv: "1 / 35184372088832 \<le> 1 / B"
    using B by (simp add: field_simps)
  have "100 * A < (N + 1) * B"
    using n(2) B(1) by (simp add: p x_def field_simps)
  then have "(of_int (100 * a) :: rat) < of_int ((n + 1) * b)"
    by (simp add: A_def B_def N_def)
  then have "100 * a < (n + 1) * b" by (simp only: of_int_less_iff)
  then have "100 * a + 1 \<le> (n + 1) * b" by linarith
  then have "(of_int (100 * a + 1) :: rat) \<le> of_int ((n + 1) * b)" by (simp only: of_int_le_iff)
  then have "100 * A + 1 \<le> (N + 1) * B" by (simp add: A_def B_def N_def)
  then have up: "p + 1 / B \<le> N + 1"
    using B(1) by (simp add: p x_def field_simps)
  have lt: "f2 < N + 1" using up inv f2 f1 p by linarith
  have fl_up: "\<lfloor>f2\<rfloor> \<le> n" using lt unfolding N_def by (simp add: floor_le_iff)
  have "of_int \<lfloor>p\<rfloor> \<noteq> p" using frac unfolding p_def .
  then have "N < p" using n(1) unfolding N_def n_def by linarith
  then have "N * B < 100 * A" using B(1) by (simp add: p x_def field_simps)
  then have "(of_int (n * b) :: rat) < of_int (100 * a)"
    by (simp add: A_def B_def N_def)
  then have "n * b < 100 * a" by (simp only: of_int_less_iff)
  then have "n * b + 1 \<le> 100 * a" by linarith
  then have "(of_int (n * b + 1) :: rat) \<le> of_int (100 * a)" by (simp only: of_int_le_iff)
  then have "N * B + 1 \<le> 100 * A" by (simp add: A_def B_def N_def)
  then have "(N * B + 1) / B \<le> (100 * A) / B" using B(1) by (simp add: divide_right_mono)
  moreover have "(N * B + 1) / B = N + 1 / B" using B(1) by (simp add: add_divide_distrib)
  moreover have "(100 * A) / B = p" by (simp add: p x_def)
  ultimately have "N + 1 / B \<le> p" by simp
  then have "N \<le> f2" using inv f2 f1 p by linarith
  then have "n \<le> \<lfloor>f2\<rfloor>" unfolding N_def by (simp add: le_floor_iff)
  with fl_up have "s = n" unfolding s by linarith
  then show ?thesis unfolding s_def n_def p_def .
qed

lemma fl_one: "fl 1 = 1"
  by code_simp

lemma fl_hundred: "fl 100 = 100"
  by code_simp

lemma percent_full:
  fixes b :: int
  assumes "0 < b"
  shows "py_int (float_mul (int_true_div b b) (float_of_int 100)) = 100"
proof -
  have "(of_int b :: rat) / of_int b = 1" using assms by simp
  then have "int_true_div b b = 1" by (simp add: int_true_div_def fl_one)
  then show ?thesis
    by (simp add: float_mul_def float_of_int_100 fl_hundred py_int_def)
qed

text \<open>
  When \<open>100 * a / b\<close> is an integer below 100, the product in double precision may fall
  under it, as it does for 29 of 100.
\<close>

lemma percent_one_less_example:
  "py_int (float_mul (int_true_div 29 100) (float_of_int 100)) = 28"
  by code_simp

lemma finite_lemma_set: "finite (lemma_set f text)"
  by (simp add: lemma_set_def)

lemma match_job_description_unfold:
  "match_job_description (Some f) resume_text job_description_text =
     (if lemma_set f job_description_text = {}
      then \<lparr>score = 0, missing_keywords = [], overlap_keywords = []\<rparr>
      else \<lparr>score = py_int (float_mul
                 (int_true_div
                    (int (card (lemma_set f resume_text \<inter> lemma_set f job_description_text)))
                    (int (card (lemma_set f job_description_text))))
                 (float_of_int 100)),
            missing_keywords =
              sorted_list_of_set (lemma_set f job_description_text - lemma_set f resume_text),
            overlap_keywords =
              sorted_list_of_set (lemma_set f resume_text \<inter> lemma_set f job_description_text)\<rparr>)"
  by (simp add: match_job_description_def Let_def)

text \<open>
  C1, as amended. With the lemmatizer available, the score of \<open>match_job_description\<close> is 0
  when the job description has no lemma. Otherwise it is the percentage
  \<open>100 * |overlap| / |jdLemmas|\<close> truncated, not rounded: its floor whenever the percentage
  is not an integer (for a job description of at most \<open>2\<^sup>4\<^sup>5\<close> lemmas), and 100 when the
  resume has every lemma of the job description. The overlap is the intersection of the
  two sets of lemmas.
\<close>

theorem match_job_description_score:
  "(lemma_set f job_description_text = {}
      \<longrightarrow> score (match_job_description (Some f) resume_text job_description_text) = 0)
   \<and> (lemma_set f job_description_text \<noteq> {}
        \<and> card (lemma_set f job_description_text) \<le> 2 ^ 45
        \<and> of_int \<lfloor>100 * of_nat (card (lemma_set f resume_text \<inter> lemma_set f job_description_text))
                     / of_nat (card (lemma_set f job_description_text)) :: rat\<rfloor>
            \<noteq> (100 * of_nat (card (lemma_set f resume_text \<inter> lemma_set f job_description_text))
                 / of_nat (card (lemma_set f job_description_text)) :: rat)
      \<longrightarrow> score (match_job_description (Some f) resume_text job_description_text)
            = \<lfloor>100 * of_nat (card (lemma_set f resume_text \<inter> lemma_set f job_description_text))
                 / of_nat (card (lemma_set f job_description_text)) :: rat\<rfloor>)
   \<and> (lemma_set f job_description_text \<noteq> {}
        \<and> lemma_set f job_description_text \<subseteq> lemma_set f resume_text
      \<longrightarrow> score (match_job_description (Some f) resume_text job_description_text) = 100)"
proof -
  define R where "R = lemma_set f resume_text"
  define J where "J = lemma_set f job_description_text"
  define s where "s = score (match_job_description (Some f) resume_text job_description_text)"
  define a where "a = int (card (R \<inter> J))"
  define b where "b = int (card J)"
  have fin: "finite J" unfolding J_def by (rule finite_lemma_set)
  have 0: "s = (if J = {} then 0 else py_int (float_mul (int_true_div a b) (float_of_int 100)))"
    unfolding s_def a_def b_def R_def J_def by (simp add: match_job_description_unfold)
  have 1: "J = {} \<longrightarrow> s = 0" using 0 by simp
  have 2: "s = \<lfloor>100 * of_nat (card (R \<inter> J)) / of_nat (card J) :: rat\<rfloor>"
    if ne: "J \<noteq> {}" and le: "card J \<le> 2 ^ 45"
      and frac: "of_int \<lfloor>100 * of_nat (card (R \<inter> J)) / of_nat (card J) :: rat\<rfloor>
                   \<noteq> (100 * of_nat (card (R \<inter> J)) / of_nat (card J) :: rat)"
  proof -
    have a: "0 \<le> a" "a \<le> b"
      unfolding a_def b_def using fin by (simp_all add: card_mono)
    have "0 < card J" using ne fin by (simp add: card_gt_0_iff)
    then have b: "0 < b" unfolding b_def by simp
    have "int (card J) \<le> int (2 ^ 45)" using le by (simp only: of_nat_le_iff)
    then have b2: "b \<le> 2 ^ 45" unfolding b_def by simp
    have e: "(100 * of_nat (card (R \<inter> J)) / of_nat (card J) :: rat) = 100 * of_int a / of_int b"
      by (simp add: a_def b_def)
    have s': "s = py_int (float_mul (int_true_div a b) (float_of_int 100))"
      using 0 ne by simp
    have "of_int \<lfloor>100 * of_int a / of_int b :: rat\<rfloor> \<noteq> (100 * of_int a / of_int b :: rat)"
      using frac unfolding e .
    from percent_truncated[OF a b b2 this] show ?thesis unfolding e s' .
  qed
  have 3: "s = 100" if ne: "J \<noteq> {}" and sub: "J \<subseteq> R"
  proof -
    have "R \<inter> J = J" using sub by blast
    then have ab: "a = b" by (simp add: a_def b_def)
    have "0 < card J" using ne fin by (simp add: card_gt_0_iff)
    then have b: "0 < b" unfolding b_def by simp
    have "s = py_int (float_mul (int_true_div b b) (float_of_int 100))"
      using 0 ne ab by simp
    then show ?thesis using percent_full[OF b] by simp
  qed
  from 1 2 3 show ?thesis
    unfolding s_def R_def J_def by blast
qed

lemma example_lemma_cards:
  "card (lemma_set example_nlp ''a b c'') = 3"
  "card (lemma_set example_nlp ''a b'' \<inter> lemma_set example_nlp ''a b c'') = 2"
  by code_simp+

theorem match_job_description_score_witness:
  "lemma_set example_nlp ''a b c'' \<noteq> {}
   \<and> card (lemma_set example_nlp ''a b c'') \<le> 2 ^ 45
   \<and> of_int \<lfloor>100 * of_nat (card (lemma_set example_nlp ''a b'' \<inter> lemma_set example_nlp ''a b c''))
                / of_nat (card (lemma_set example_nlp ''a b c'')) :: rat\<rfloor>
       \<noteq> (100 * of_nat (card (lemma_set example_nlp ''a b'' \<inter> lemma_set example_nlp ''a b c''))
            / of_nat (card (lemma_set example_nlp ''a b c'')) :: rat)
   \<and> score (match_job_description (Some example_nlp) ''a b'' ''a b c'') = 66"
proof -
  have h1: "lemma_set example_nlp ''a b c'' \<noteq> {}" by code_simp
  have h2: "card (lemma_set example_nlp ''a b c'') \<le> 2 ^ 45"
    by (simp add: example_lemma_cards)
  have two_thirds: "\<lfloor>200 / 3 :: rat\<rfloor> = 66" by (rule floor_unique) simp_all
  have v: "\<lfloor>100 * of_nat (card (lemma_set example_nlp ''a b'' \<inter> lemma_set example_nlp ''a b c''))
                / of_nat (card (lemma_set example_nlp ''a b c'')) :: rat\<rfloor> = 66"
    using two_thirds by (simp add: example_lemma_cards)
  have h3: "of_int \<lfloor>100 * of_nat (card (lemma_set example_nlp ''a b'' \<inter> lemma_set example_nlp ''a b c''))
                / of_nat (card (lemma_set example_nlp ''a b c'')) :: rat\<rfloor>
       \<noteq> (100 * of_nat (card (lemma_set example_nlp ''a b'' \<inter> lemma_set example_nlp ''a b c''))
            / of_nat (card (lemma_set example_nlp ''a b c'')) :: rat)"
    using two_thirds by (simp add: example_lemma_cards)
  have "score (match_job_description (Some example_nlp) ''a b'' ''a b c'')
          = \<lfloor>100 * of_nat (card (lemma_set example_nlp ''a b'' \<inter> lemma_set example_nlp ''a b c''))
                / of_nat (card (lemma_set example_nlp ''a b c'')) :: rat\<rfloor>"
    using match_job_description_score[of example_nlp "''a b c''" "''a b''"] h1 h2 h3 by blast
  then have c: "score (match_job_description (Some example_nlp) ''a b'' ''a b c'') = 66"
    unfolding v .
  from h1 h2 h3 c show ?thesis by blast
qed

text \<open>
  C1 as stated fails: with two of the three lemmas of the job description in the resume,
  the program returns 66, and the rounding of \<open>100 * 2 / 3\<close> is 67.
\<close>

theorem match_job_description_score_counterexample:
  "lemma_set example_nlp ''a b c'' \<noteq> {}
   \<and> score (match_job_description (Some example_nlp) ''a b'' ''a b c'') = 66
   \<and> spec_match_score (lemma_set example_nlp ''a b'') (lemma_set example_nlp ''a b c'') = 67"
  by code_simp

text \<open>
  C5. With the lemmatizer available and a job description that has a lemma, the missing
  keywords are the lemmas of the job description that the resume lacks and the overlap
  keywords those it has: the two lists cover the lemmas of the job description, share
  none, and each is in strictly ascending order.
\<close>

theorem match_job_description_partition:
  assumes "lemma_set f job_description_text \<noteq> {}"
  shows "set (missing_keywords (match_job_description (Some f) resume_text job_description_text))
           \<union> set (overlap_keywords (match_job_description (Some f) resume_text job_description_text))
           = lemma_set f job_description_text
         \<and> set (missing_keywords (match_job_description (Some f) resume_text job_description_text))
           \<inter> set (overlap_keywords (match_job_description (Some f) resume_text job_description_text))
           = {}
         \<and> set (overlap_keywords (match_job_description (Some f) resume_text job_description_text))
           = lemma_set f resume_text \<inter> lemma_set f job_description_text
         \<and> sorted (missing_keywords (match_job_description (Some f) resume_text job_description_text))
         \<and> distinct (missing_keywords (match_job_description (Some f) resume_text job_description_text))
         \<and> sorted (overlap_keywords (match_job_description (Some f) resume_text job_description_text))
         \<and> distinct (overlap_keywords (match_job_description (Some f) resume_text job_description_text))"
proof -
  have fin: "finite (lemma_set f job_description_text - lemma_set f resume_text)"
    "finite (lemma_set f resume_text \<inter> lemma_set f job_description_text)"
    by (simp_all add: finite_lemma_set)
  show ?thesis
    using assms fin by (auto simp add: match_job_description_unfold)
qed

theorem match_job_description_partition_witness:
  "lemma_set example_nlp ''c a b d'' \<noteq> {}
   \<and> missing_keywords (match_job_description (Some example_nlp) ''b a'' ''c a b d'') = [''c'', ''d'']
   \<and> overlap_keywords (match_job_description (Some example_nlp) ''b a'' ''c a b d'') = [''a'', ''b'']
   \<and> set (missing_keywords (match_job_description (Some example_nlp) ''b a'' ''c a b d''))
       \<union> set (overlap_keywords (match_job_description (Some example_nlp) ''b a'' ''c a b d''))
       = lemma_set example_nlp ''c a b d''"
proof -
  have h: "lemma_set example_nlp ''c a b d'' \<noteq> {}" by code_simp
  have m: "missing_keywords (match_job_description (Some example_nlp) ''b a'' ''c a b d'')
             = [''c'', ''d'']" by code_simp
  have v: "overlap_keywords (match_job_description (Some example_nlp) ''b a'' ''c a b d'')
             = [''a'', ''b'']" by code_simp
  from match_job_description_partition[OF h, of "''b a''"] h m v show ?thesis by blast
qed

subsection \<open>Issue compilation\<close>







lemma content_issues_of_compile:
  "fst (snd (compile_issues nlp sections raw_text)) =
     summary_issues (get_section sections Profile_Summary)
     @ education_issues (get_section sections Education)
     @ experience_issues (get_section sections Work_Experience)"
  by (simp add: compile_issues_def Let_def)






subsection \<open>Recommendations\<close>




subsection \<open>Section segmentation\<close>

lemma parse_lines_no_heading:
  "list_all (\<lambda>line. \<not> is_heading line) lines \<Longrightarrow> parse_lines None sections lines = sections"
  by (induction lines) simp_all

lemma strip_Nil: "strip [] = []"
  by (simp add: strip_def)

lemma messages_distinct:
  "msg_degree \<noteq> msg_no_education" "msg_year \<noteq> msg_no_education"
  by (simp_all add: msg_degree_def msg_year_def msg_no_education_def)

lemma summary_issues_Nil: "summary_issues [] = []"
  by (simp add: summary_issues_def)

lemma education_issues_Nil: "education_issues [] = [msg_no_education]"
  by (simp add: education_issues_def)

lemma experience_issues_Nil: "experience_issues [] = []"
  by (simp add: experience_issues_def)

text \<open>
  C8. When no line of a text is recognised as a heading, segmentation returns the four
  sections empty, and the issues compiled from them are the two formatting issues, of
  the missing skills and the missing work experience, and the one content issue that the
  education section was not found; the issues of the degree and of the graduation year
  are not raised.
\<close>

theorem no_heading_sections_and_issues:
  assumes "list_all (\<lambda>line. \<not> is_heading line) (split_on newline text)"
  shows "parse_sections_by_iteration text Profile_Summary = Some []
         \<and> parse_sections_by_iteration text Work_Experience = Some []
         \<and> parse_sections_by_iteration text Education = Some []
         \<and> parse_sections_by_iteration text Skills = Some []
         \<and> fst (compile_issues nlp (parse_sections_by_iteration text) raw_text)
             = [msg_no_skills, msg_no_experience]
         \<and> fst (snd (compile_issues nlp (parse_sections_by_iteration text) raw_text))
             = [msg_no_education]
         \<and> msg_degree \<notin> set (fst (snd (compile_issues nlp (parse_sections_by_iteration text)
                                         raw_text)))
         \<and> msg_year \<notin> set (fst (snd (compile_issues nlp (parse_sections_by_iteration text)
                                       raw_text)))"
proof -
  have p: "parse_sections_by_iteration text = (\<lambda>k. Some [])"
    unfolding parse_sections_by_iteration_def Let_def parse_lines_no_heading[OF assms]
    by (simp add: strip_Nil)
  have f: "fst (compile_issues nlp (\<lambda>k. Some []) raw_text) = [msg_no_skills, msg_no_experience]"
    by (simp add: compile_issues_def Let_def get_section_def)
  have c: "fst (snd (compile_issues nlp (\<lambda>k. Some []) raw_text)) = [msg_no_education]"
    by (simp add: content_issues_of_compile get_section_def summary_issues_Nil
        education_issues_Nil experience_issues_Nil)
  show ?thesis
    unfolding p f c using messages_distinct by simp
qed

theorem no_heading_sections_and_issues_witness:
  "list_all (\<lambda>line. \<not> is_heading line) (split_on newline ''Jane Doe\<newline>Likes Python'')
   \<and> parse_sections_by_iteration ''Jane Doe\<newline>Likes Python'' Skills = Some []
   \<and> fst (compile_issues None (parse_sections_by_iteration ''Jane Doe\<newline>Likes Python'')
            ''Jane Doe\<newline>Likes Python'')
       = [msg_no_skills, msg_no_experience]
   \<and> fst (snd (compile_issues None (parse_sections_by_iteration ''Jane Doe\<newline>Likes Python'')
            ''Jane Doe\<newline>Likes Python''))
       = [msg_no_education]"
proof -
  have h: "list_all (\<lambda>line. \<not> is_heading line) (split_on newline ''Jane Doe\<newline>Likes Python'')"
    by code_simp
  from no_heading_sections_and_issues[OF h, of None "''Jane Doe\<newline>Likes Python''"] h
  show ?thesis by blast
qed

subsection \<open>The orchestrator\<close>

lemma foldl_first_max:
  fixes f :: "'a \<Rightarrow> int"
  assumes "i < length pre"
    and "\<forall>j<length pre. f (pre ! j) \<le> f (pre ! i)"
    and "\<forall>j<i. f (pre ! j) < f (pre ! i)"
  shows "\<exists>k<length (pre @ ys).
           foldl (\<lambda>best x. if f best < f x then x else best) (pre ! i) ys = (pre @ ys) ! k
           \<and> (\<forall>j<length (pre @ ys). f ((pre @ ys) ! j) \<le> f ((pre @ ys) ! k))
           \<and> (\<forall>j<k. f ((pre @ ys) ! j) < f ((pre @ ys) ! k))"
  using assms
proof (induction ys arbitrary: pre i)
  case Nil
  then show ?case by auto
next
  case (Cons y ys)
  define i' where "i' = (if f (pre ! i) < f y then length pre else i)"
  have b: "(pre @ [y]) ! i' = (if f (pre ! i) < f y then y else pre ! i)"
    using Cons.prems(1) by (simp add: i'_def nth_append)
  have 1: "i' < length (pre @ [y])" using Cons.prems(1) by (simp add: i'_def)
  have 2: "\<forall>j<length (pre @ [y]). f ((pre @ [y]) ! j) \<le> f ((pre @ [y]) ! i')"
  proof (intro allI impI)
    fix j assume "j < length (pre @ [y])"
    then consider "j < length pre" | "j = length pre" by force
    then show "f ((pre @ [y]) ! j) \<le> f ((pre @ [y]) ! i')"
    proof cases
      case 1
      then have "f (pre ! j) \<le> f (pre ! i)" using Cons.prems(2) by simp
      then show ?thesis using 1 unfolding b by (simp add: nth_append)
    next
      case 2
      then show ?thesis unfolding b by (simp add: nth_append)
    qed
  qed
  have 3: "\<forall>j<i'. f ((pre @ [y]) ! j) < f ((pre @ [y]) ! i')"
  proof (intro allI impI)
    fix j assume j: "j < i'"
    show "f ((pre @ [y]) ! j) < f ((pre @ [y]) ! i')"
    proof (cases "f (pre ! i) < f y")
      case True
      then have "j < length pre" using j by (simp add: i'_def)
      moreover from this have "f (pre ! j) \<le> f (pre ! i)" using Cons.prems(2) by simp
      ultimately show ?thesis using True unfolding b by (simp add: nth_append)
    next
      case False
      then have ji: "j < i" using j by (simp add: i'_def)
      then have "f (pre ! j) < f (pre ! i)" using Cons.prems(3) by simp
      moreover have "j < length pre" using ji Cons.prems(1) by simp
      ultimately show ?thesis using False unfolding b by (simp add: nth_append)
    qed
  qed
  have "foldl (\<lambda>best x. if f best < f x then x else best) (pre ! i) (y # ys)
        = foldl (\<lambda>best x. if f best < f x then x else best) ((pre @ [y]) ! i') ys"
    unfolding b by simp
  with Cons.IH[OF 1 2 3] show ?case by simp
qed

lemma py_max_key_first:
  fixes f :: "'a \<Rightarrow> int"
  assumes "xs \<noteq> []"
  shows "\<exists>k<length xs. py_max_key f xs = xs ! k
           \<and> (\<forall>j<length xs. f (xs ! j) \<le> f (xs ! k))
           \<and> (\<forall>j<k. f (xs ! j) < f (xs ! k))"
proof -
  obtain x rest where xs: "xs = x # rest" using assms by (cases xs) auto
  have "\<exists>k<length ([x] @ rest).
           foldl (\<lambda>best y. if f best < f y then y else best) ([x] ! 0) rest = ([x] @ rest) ! k
           \<and> (\<forall>j<length ([x] @ rest). f (([x] @ rest) ! j) \<le> f (([x] @ rest) ! k))
           \<and> (\<forall>j<k. f (([x] @ rest) ! j) < f (([x] @ rest) ! k))"
    by (rule foldl_first_max) simp_all
  then show ?thesis by (simp add: py_max_key_def xs)
qed

lemma domain_names: "map fst DOMAIN_KEYWORDS = [''software'', ''marketing'', ''graphic_designer'', ''scm'']"
  by (simp add: DOMAIN_KEYWORDS_def)

lemma domain_scores_names: "map fst (domain_scores t) = map fst DOMAIN_KEYWORDS"
  by (simp add: domain_scores_def case_prod_unfold)

lemma map_of_mapped_values:
  assumes "distinct (map fst xs)" "j < length xs"
  shows "map_of (map (\<lambda>(d, v). (d, g v)) xs) (fst (xs ! j)) = Some (g (snd (xs ! j)))"
  using assms
proof (induction xs arbitrary: j)
  case Nil
  then show ?case by simp
next
  case (Cons x xs)
  show ?case
  proof (cases j)
    case 0
    then show ?thesis by (simp add: case_prod_unfold)
  next
    case (Suc j')
    then have j': "j' < length xs" using Cons.prems(2) by simp
    then have "fst (xs ! j') \<in> set (map fst xs)" by (metis length_map nth_map nth_mem)
    moreover have "fst x \<notin> set (map fst xs)" using Cons.prems(1) by simp
    ultimately have "fst (xs ! j') \<noteq> fst x" by metis
    moreover have "map_of (map (\<lambda>(d, v). (d, g v)) xs) (fst (xs ! j')) = Some (g (snd (xs ! j')))"
      using Cons.IH[OF _ j'] Cons.prems(1) by simp
    ultimately show ?thesis using Suc by (simp add: case_prod_unfold)
  qed
qed

lemma score_of_domain:
  assumes "j < length DOMAIN_KEYWORDS"
  shows "get_default 0 (map_of (domain_scores (lower raw_text)) (fst (DOMAIN_KEYWORDS ! j)))
         = spec_keyword_hits raw_text (DOMAIN_KEYWORDS ! j)"
proof -
  have d: "distinct (map fst DOMAIN_KEYWORDS)" unfolding domain_names by simp
  show ?thesis
    unfolding domain_scores_def map_of_mapped_values[OF d assms]
    by (simp add: get_default_def spec_keyword_hits_def)
qed

lemma infer_domain_first_max:
  "\<exists>i<length DOMAIN_KEYWORDS.
     infer_domain raw_text
       = (if 2 < spec_keyword_hits raw_text (DOMAIN_KEYWORDS ! i) then fst (DOMAIN_KEYWORDS ! i)
          else ''generic'')
     \<and> (\<forall>j<length DOMAIN_KEYWORDS.
          spec_keyword_hits raw_text (DOMAIN_KEYWORDS ! j) \<le> spec_keyword_hits raw_text (DOMAIN_KEYWORDS ! i))
     \<and> (\<forall>j<i. spec_keyword_hits raw_text (DOMAIN_KEYWORDS ! j)
                < spec_keyword_hits raw_text (DOMAIN_KEYWORDS ! i))"
proof -
  define score_of where
    "score_of = (\<lambda>d. get_default 0 (map_of (domain_scores (lower raw_text)) d))"
  define names where "names = map fst DOMAIN_KEYWORDS"
  have ne: "names \<noteq> []" by (simp add: names_def DOMAIN_KEYWORDS_def)
  have len: "length names = length DOMAIN_KEYWORDS" by (simp add: names_def)
  have nth: "names ! j = fst (DOMAIN_KEYWORDS ! j)" if "j < length DOMAIN_KEYWORDS" for j
    using that by (simp add: names_def)
  have sc: "score_of (names ! j) = spec_keyword_hits raw_text (DOMAIN_KEYWORDS ! j)"
    if "j < length DOMAIN_KEYWORDS" for j
    using that by (simp add: nth score_of_def score_of_domain)
  obtain k where k: "k < length names" "py_max_key score_of names = names ! k"
    "\<forall>j<length names. score_of (names ! j) \<le> score_of (names ! k)"
    "\<forall>j<k. score_of (names ! j) < score_of (names ! k)"
    using py_max_key_first[OF ne, of score_of] by blast
  have kl: "k < length DOMAIN_KEYWORDS" using k(1) len by simp
  have inf: "infer_domain raw_text
               = (if 2 < score_of (py_max_key score_of names) then py_max_key score_of names
                  else ''generic'')"
    by (simp add: infer_domain_def Let_def score_of_def names_def domain_scores_names)
  have a: "infer_domain raw_text
       = (if 2 < spec_keyword_hits raw_text (DOMAIN_KEYWORDS ! k) then fst (DOMAIN_KEYWORDS ! k)
          else ''generic'')"
    using sc[OF kl] unfolding inf k(2) nth[OF kl] by simp
  have b: "\<forall>j<length DOMAIN_KEYWORDS.
          spec_keyword_hits raw_text (DOMAIN_KEYWORDS ! j) \<le> spec_keyword_hits raw_text (DOMAIN_KEYWORDS ! k)"
    using k(3) sc kl len by auto
  have c: "\<forall>j<k. spec_keyword_hits raw_text (DOMAIN_KEYWORDS ! j)
                < spec_keyword_hits raw_text (DOMAIN_KEYWORDS ! k)"
    using k(4) sc kl by auto
  from kl a b c show ?thesis by blast
qed

lemma default_jd_of_domain:
  assumes "d \<in> set (map fst DOMAIN_KEYWORDS) \<or> d = ''generic''"
  shows "\<exists>jd. map_of DEFAULT_JDS d = Some jd \<and> jd \<noteq> []"
  using assms unfolding domain_names by (auto simp add: DEFAULT_JDS_def)

lemma choose_default_total:
  "\<exists>jd. choose_job_description raw_text None = Some jd \<and> jd \<noteq> []"
proof -
  obtain i where i: "i < length DOMAIN_KEYWORDS"
    "infer_domain raw_text
       = (if 2 < spec_keyword_hits raw_text (DOMAIN_KEYWORDS ! i) then fst (DOMAIN_KEYWORDS ! i)
          else ''generic'')"
    using infer_domain_first_max by blast
  have "fst (DOMAIN_KEYWORDS ! i) \<in> set (map fst DOMAIN_KEYWORDS)"
    using i(1) by (metis length_map nth_map nth_mem)
  then have "infer_domain raw_text \<in> set (map fst DOMAIN_KEYWORDS)
             \<or> infer_domain raw_text = ''generic''"
    unfolding i(2) by simp
  from default_jd_of_domain[OF this] show ?thesis
    by (simp add: choose_job_description_def)
qed


lemma analyze_resume_report:
  assumes "fst (master_text_extractor env file) = Some raw_text" "raw_text \<noteq> []"
    "raw_text \<noteq> TESSERACT_NOT_FOUND" "choose_job_description raw_text jdt = Some jd"
  shows "analyze_resume env file jdt =
           Report (build_report env raw_text (fst (snd (master_text_extractor env file)))
                     (snd (snd (master_text_extractor env file)))
                     (match_job_description (env_nlp env) raw_text jd))"
  using assms
  by (cases "master_text_extractor env file")
     (simp add: analyze_resume_def get_default_def)

text \<open>
  C6. When \<open>analyze_resume\<close> has extracted a text and is given no job description, it
  counts for each domain of the table the keywords that occur in the lowercased text,
  takes the first domain of the table among those of the greatest count, and matches the
  resume against the default job description of that domain when its count exceeds 2, and
  against the generic one otherwise.
\<close>

theorem default_job_description_by_domain:
  assumes "fst (master_text_extractor env file) = Some raw_text"
    and "raw_text \<noteq> []" and "raw_text \<noteq> TESSERACT_NOT_FOUND"
  shows "\<exists>i<length DOMAIN_KEYWORDS. \<exists>jd.
           (\<forall>j<length DOMAIN_KEYWORDS.
              spec_keyword_hits raw_text (DOMAIN_KEYWORDS ! j)
                \<le> spec_keyword_hits raw_text (DOMAIN_KEYWORDS ! i))
           \<and> (\<forall>j<i. spec_keyword_hits raw_text (DOMAIN_KEYWORDS ! j)
                      < spec_keyword_hits raw_text (DOMAIN_KEYWORDS ! i))
           \<and> map_of DEFAULT_JDS
                (if 2 < spec_keyword_hits raw_text (DOMAIN_KEYWORDS ! i) then fst (DOMAIN_KEYWORDS ! i)
                 else ''generic'') = Some jd
           \<and> analyze_resume env file None =
               Report (build_report env raw_text (fst (snd (master_text_extractor env file)))
                         (snd (snd (master_text_extractor env file)))
                         (match_job_description (env_nlp env) raw_text jd))"
proof -
  obtain i where i: "i < length DOMAIN_KEYWORDS"
    "infer_domain raw_text
       = (if 2 < spec_keyword_hits raw_text (DOMAIN_KEYWORDS ! i) then fst (DOMAIN_KEYWORDS ! i)
          else ''generic'')"
    "\<forall>j<length DOMAIN_KEYWORDS.
       spec_keyword_hits raw_text (DOMAIN_KEYWORDS ! j) \<le> spec_keyword_hits raw_text (DOMAIN_KEYWORDS ! i)"
    "\<forall>j<i. spec_keyword_hits raw_text (DOMAIN_KEYWORDS ! j)
             < spec_keyword_hits raw_text (DOMAIN_KEYWORDS ! i)"
    using infer_domain_first_max by blast
  obtain jd where jd: "choose_job_description raw_text None = Some jd"
    using choose_default_total by blast
  then have m: "map_of DEFAULT_JDS
                (if 2 < spec_keyword_hits raw_text (DOMAIN_KEYWORDS ! i) then fst (DOMAIN_KEYWORDS ! i)
                 else ''generic'') = Some jd"
    unfolding i(2)[symmetric] by (simp add: choose_job_description_def)
  note r = analyze_resume_report[OF assms jd]
  from i(1) i(3) i(4) m r show ?thesis by blast
qed

lemma example_docx_text:
  "fst (master_text_extractor example_env example_docx) = Some ''Python developer, AWS and Java''"
  by code_simp

theorem default_job_description_by_domain_witness:
  "fst (master_text_extractor example_env example_docx) = Some ''Python developer, AWS and Java''
   \<and> ''Python developer, AWS and Java'' \<noteq> []
   \<and> ''Python developer, AWS and Java'' \<noteq> TESSERACT_NOT_FOUND
   \<and> (\<exists>jd. analyze_resume example_env example_docx None =
               Report (build_report example_env ''Python developer, AWS and Java''
                         (fst (snd (master_text_extractor example_env example_docx)))
                         (snd (snd (master_text_extractor example_env example_docx)))
                         (match_job_description (env_nlp example_env)
                            ''Python developer, AWS and Java'' jd)))"
proof -
  have h2: "''Python developer, AWS and Java'' \<noteq> []" by simp
  have h3: "''Python developer, AWS and Java'' \<noteq> TESSERACT_NOT_FOUND"
    by (simp add: TESSERACT_NOT_FOUND_def)
  from default_job_description_by_domain[OF example_docx_text h2 h3] example_docx_text h2 h3
  show ?thesis by blast
qed








subsection \<open>The scenario of the specification\<close>

lemma scenario_sections:
  "parse_sections_by_iteration example_scenario Profile_Summary = Some ''A dynamic team player.''"
  "parse_sections_by_iteration example_scenario Work_Experience = Some []"
  "parse_sections_by_iteration example_scenario Education = Some []"
  "parse_sections_by_iteration example_scenario Skills = Some ''Python, AWS''"
  by code_simp+

lemma scenario_summary_issues:
  "summary_issues ''A dynamic team player.''
     = [''Profile summary uses buzzwords: dynamic.'', msg_value_proposition]"
  by code_simp

lemma scenario_no_team_player:
  "\<not> contains ''team player'' ''Profile summary uses buzzwords: dynamic.''"
  "\<not> contains ''team player'' msg_value_proposition"
  "\<not> contains ''team player'' msg_no_education"
  by code_simp+

text \<open>
  C2. The text "Summary / A dynamic team player. / Skills / Python, AWS", one line each,
  has the profile summary "A dynamic team player." and the skills "Python, AWS"; the
  missing work experience is flagged as a formatting issue and the missing education as a
  content issue. Of the buzzwords the content issues report "dynamic" only: "team player"
  is in the table, and no content issue mentions it.
\<close>

theorem scenario_summary_and_skills:
  "parse_sections_by_iteration example_scenario Profile_Summary = Some ''A dynamic team player.''
   \<and> parse_sections_by_iteration example_scenario Skills = Some ''Python, AWS''
   \<and> parse_sections_by_iteration example_scenario Work_Experience = Some []
   \<and> parse_sections_by_iteration example_scenario Education = Some []
   \<and> fst (compile_issues nlp (parse_sections_by_iteration example_scenario) raw_text)
       = [msg_no_experience]
   \<and> fst (snd (compile_issues nlp (parse_sections_by_iteration example_scenario) raw_text))
       = [''Profile summary uses buzzwords: dynamic.'', msg_value_proposition, msg_no_education]
   \<and> ''team player'' \<in> set BUZZWORDS
   \<and> \<not> list_ex (contains ''team player'')
         (fst (snd (compile_issues nlp (parse_sections_by_iteration example_scenario) raw_text)))"
proof -
  have f: "fst (compile_issues nlp (parse_sections_by_iteration example_scenario) raw_text)
       = [msg_no_experience]"
    by (simp add: compile_issues_def Let_def get_section_def scenario_sections)
  have c: "fst (snd (compile_issues nlp (parse_sections_by_iteration example_scenario) raw_text))
       = [''Profile summary uses buzzwords: dynamic.'', msg_value_proposition, msg_no_education]"
    unfolding content_issues_of_compile
    by (simp add: get_section_def scenario_sections scenario_summary_issues
        education_issues_Nil experience_issues_Nil)
  have b: "''team player'' \<in> set BUZZWORDS" by (simp add: BUZZWORDS_def)
  have n: "\<not> list_ex (contains ''team player'')
         (fst (snd (compile_issues nlp (parse_sections_by_iteration example_scenario) raw_text)))"
    unfolding c using scenario_no_team_player by simp
  from scenario_sections f c b n show ?thesis by blast
qed

theorem scenario_summary_and_skills_witness:
  "fst (snd (compile_issues None (parse_sections_by_iteration example_scenario) example_scenario))
     = [''Profile summary uses buzzwords: dynamic.'', msg_value_proposition, msg_no_education]
   \<and> \<not> list_ex (contains ''team player'')
         (fst (snd (compile_issues None (parse_sections_by_iteration example_scenario)
                      example_scenario)))"
  using scenario_summary_and_skills[of None example_scenario] by blast

end
